theory Spec2Isabelle
  imports Main
begin

section \<open>Data model\<close>

text \<open>
  The views of \<^verbatim>\<open>battlecode/api/views.py\<close> work on the Django models League, Team,
  Submission, Map and Scrimmage. The module that declares the models is imported by the
  views (\<^verbatim>\<open>from battlecode.api.serializers import *\<close>) and is not part of the
  file, so the records below hold exactly the fields the views read and write.
  Primary keys and foreign keys are Python integers; a nullable foreign key is an option.
  The status of a scrimmage is a string, as in the source.
\<close>

record league =
  league_pk :: int
  active :: bool
  submissions_enabled :: bool

record team =
  team_pk :: int
  team_league :: int
  users :: "int list"
  auto_accept_ranked :: bool
  auto_accept_unranked :: bool
  deleted :: bool

record submission =
  submission_pk :: int
  submission_team :: int
  submitted_at :: int

record league_map =
  map_pk :: int
  map_league :: int
  hidden :: bool

record scrimmage =
  scrimmage_pk :: int
  scrimmage_league :: int
  red_team :: int
  blue_team :: int
  scrimmage_map :: int
  ranked :: bool
  requested_by :: int
  status :: string
  red_submission :: "int option"
  blue_submission :: "int option"
  requested_at :: int

text \<open>The database: one table per model, each a list of rows.\<close>

record db =
  leagues :: "league list"
  teams :: "team list"
  submissions :: "submission list"
  maps :: "league_map list"
  scrimmages :: "scrimmage list"

section \<open>Requests, responses and exceptions\<close>

text \<open>
  A value of \<^verbatim>\<open>request.data\<close>: a form field is a string, a JSON body may also hold
  null, booleans and integers. JSON numbers with a fraction, arrays and objects are not
  represented.
\<close>

datatype pyval = PNone | PBool bool | PInt int | PStr string

text \<open>
  \<^verbatim>\<open>request.user\<close> is \<open>None\<close> for an anonymous user (\<^verbatim>\<open>is_authenticated\<close> false)
  and the user's id otherwise.
\<close>

record request =
  http_method :: string
  user :: "int option"
  data :: "(string \<times> pyval) list"

text \<open>
  The exceptions that the views raise or that the calls they make raise. Each carries the
  strings of its \<^verbatim>\<open>args\<close> where the source reads them.
\<close>

datatype exc =
    NotFound
  | PermissionDenied
  | NotAuthenticated
  | InternalError
  | DoesNotExist
  | MultipleObjectsReturned string
  | MethodNotAllowed
  | KeyError string
  | ValueError string
  | TypeError string
  | AttributeError string

text \<open>
  The body of a response: a dictionary with the single key \<^verbatim>\<open>message\<close>, the serializer's
  rendering of a scrimmage, or the serializer's error dictionary.
\<close>

datatype body = Message string | Data scrimmage | Errors

datatype response = Response body nat

definition HTTP_200_OK :: nat where "HTTP_200_OK = 200"
definition HTTP_201_CREATED :: nat where "HTTP_201_CREATED = 201"
definition HTTP_400_BAD_REQUEST :: nat where "HTTP_400_BAD_REQUEST = 400"
definition HTTP_404_NOT_FOUND :: nat where "HTTP_404_NOT_FOUND = 404"
definition HTTP_500_INTERNAL_SERVER_ERROR :: nat where "HTTP_500_INTERNAL_SERVER_ERROR = 500"

fun status_code :: "response \<Rightarrow> nat" where
  "status_code (Response b c) = c"

fun response_body :: "response \<Rightarrow> body" where
  "response_body (Response b c) = b"

text \<open>\<^verbatim>\<open>permissions.SAFE_METHODS\<close> of the REST framework.\<close>

definition SAFE_METHODS :: "string list" where
  "SAFE_METHODS = [''GET'', ''HEAD'', ''OPTIONS'']"

section \<open>Reading request fields\<close>

text \<open>\<^verbatim>\<open>request.data[key]\<close>: a missing key raises \<^verbatim>\<open>KeyError(key)\<close>.\<close>

definition getitem :: "(string \<times> pyval) list \<Rightarrow> string \<Rightarrow> exc + pyval" where
  "getitem d k = (case map_of d k of None \<Rightarrow> Inl (KeyError k) | Some v \<Rightarrow> Inr v)"

text \<open>
  Python's \<^verbatim>\<open>int()\<close> on a string, base 10: surrounding whitespace is dropped, one sign is
  allowed, then decimal digits, where single underscores may stand between digits.
  Strings are byte strings here, so only ASCII digits and whitespace are recognised.
\<close>

definition is_space :: "char \<Rightarrow> bool" where
  "is_space c = (c \<in> set [CHR 0x20, CHR 0x09, CHR 0x0A, CHR 0x0B, CHR 0x0C, CHR 0x0D,
                            CHR 0x1C, CHR 0x1D, CHR 0x1E, CHR 0x1F])"

definition is_digit :: "char \<Rightarrow> bool" where
  "is_digit c = (48 \<le> (of_char c :: nat) \<and> (of_char c :: nat) \<le> 57)"

definition digit_value :: "char \<Rightarrow> int" where
  "digit_value c = int (of_char c) - 48"

fun digits_value :: "int \<Rightarrow> string \<Rightarrow> int option" where
  "digits_value acc [] = Some acc"
| "digits_value acc [c] = (if is_digit c then Some (acc * 10 + digit_value c) else None)"
| "digits_value acc (c # c' # cs) =
     (if is_digit c then digits_value (acc * 10 + digit_value c) (c' # cs)
      else if c = CHR ''_'' \<and> is_digit c' then digits_value acc (c' # cs)
      else None)"

definition strip :: "string \<Rightarrow> string" where
  "strip s = rev (dropWhile is_space (rev (dropWhile is_space s)))"

definition parse_int :: "string \<Rightarrow> int option" where
  "parse_int s =
     (case strip s of
        [] \<Rightarrow> None
      | c # cs \<Rightarrow>
          if c = CHR ''-'' then
            (case cs of [] \<Rightarrow> None
             | d # _ \<Rightarrow> if is_digit d then map_option uminus (digits_value 0 cs) else None)
          else if c = CHR ''+'' then
            (case cs of [] \<Rightarrow> None
             | d # _ \<Rightarrow> if is_digit d then digits_value 0 cs else None)
          else if is_digit c then digits_value 0 (c # cs)
          else None)"

definition py_int :: "pyval \<Rightarrow> exc + int" where
  "py_int v =
     (case v of
        PInt i \<Rightarrow> Inr i
      | PBool b \<Rightarrow> Inr (if b then 1 else 0)
      | PNone \<Rightarrow> Inl (TypeError ''int() argument must be a string, a bytes-like object or a number'')
      | PStr s \<Rightarrow>
          (case parse_int s of
             Some i \<Rightarrow> Inr i
           | None \<Rightarrow> Inl (ValueError (''invalid literal for int() with base 10: '' @ s))))"

text \<open>\<^verbatim>\<open>request.data[...] == 'True'\<close>: only the string \<^verbatim>\<open>'True'\<close> is equal to it.\<close>

definition eq_True_str :: "pyval \<Rightarrow> bool" where
  "eq_True_str v = (case v of PStr s \<Rightarrow> s = ''True'' | _ \<Rightarrow> False)"

text \<open>The \<^verbatim>\<open>args\<close> of an exception, as \<^verbatim>\<open>','.join(e.args)\<close> reads them.\<close>

fun exc_args :: "exc \<Rightarrow> string list" where
  "exc_args (KeyError k) = [k]"
| "exc_args (ValueError m) = [m]"
| "exc_args (TypeError m) = [m]"
| "exc_args (MultipleObjectsReturned m) = [m]"
| "exc_args (AttributeError m) = [m]"
| "exc_args e = []"

fun join :: "string \<Rightarrow> string list \<Rightarrow> string" where
  "join sep [] = []"
| "join sep [x] = x"
| "join sep (x # y # ys) = x @ sep @ join sep (y # ys)"

section \<open>ScrimmageViewSet: lookups\<close>

text \<open>
  \<^verbatim>\<open>get_team(league_id, user_id)\<close>: the teams of the league that have the user on their
  roster; none gives \<open>None\<close>, more than one raises \<^verbatim>\<open>InternalError\<close>.
\<close>

definition get_team :: "db \<Rightarrow> int \<Rightarrow> int \<Rightarrow> exc + team option" where
  "get_team d league_id user_id =
     (let teams' = filter (\<lambda>t. team_league t = league_id \<and> user_id \<in> set (users t)) (teams d)
      in if length teams' = 0 then Inr None
         else if length teams' > 1 then Inl InternalError
         else Inr (Some (hd teams')))"

text \<open>
  \<^verbatim>\<open>queryset.get(pk=...)\<close>: exactly one row, else \<^verbatim>\<open>DoesNotExist\<close> or
  \<^verbatim>\<open>MultipleObjectsReturned\<close>.
\<close>

definition qs_get :: "('a \<Rightarrow> int) \<Rightarrow> 'a list \<Rightarrow> int \<Rightarrow> exc + 'a" where
  "qs_get key rows pk =
     (case filter (\<lambda>r. key r = pk) rows of
        [] \<Rightarrow> Inl DoesNotExist
      | [r] \<Rightarrow> Inr r
      | _ \<Rightarrow> Inl (MultipleObjectsReturned ''get() returned more than one row''))"

text \<open>
  \<^verbatim>\<open>get_map(league_id, map_id)\<close>: the visible map of the league with this id;
  only \<^verbatim>\<open>Map.DoesNotExist\<close> is caught and gives \<open>None\<close>.
\<close>

definition get_map :: "db \<Rightarrow> int \<Rightarrow> int \<Rightarrow> exc + league_map option" where
  "get_map d league_id map_id =
     (case qs_get map_pk (filter (\<lambda>m. map_league m = league_id \<and> hidden m = False) (maps d)) map_id of
        Inl DoesNotExist \<Rightarrow> Inr None
      | Inl e \<Rightarrow> Inl e
      | Inr m \<Rightarrow> Inr (Some m))"

text \<open>
  \<^verbatim>\<open>get_submission(team_id)\<close>: the submissions of the team in descending order of
  \<^verbatim>\<open>submitted_at\<close>; none gives \<open>None\<close>, else the first. Submissions with the same
  time stay in the order of the table.
\<close>

definition get_submission :: "db \<Rightarrow> int \<Rightarrow> submission option" where
  "get_submission d team_id =
     (let submissions' = sort_key (\<lambda>s. - submitted_at s)
                           (filter (\<lambda>s. submission_team s = team_id) (submissions d))
      in if length submissions' = 0 then None else Some (hd submissions'))"


section \<open>ScrimmageViewSet: permissions\<close>

text \<open>
  \<^verbatim>\<open>get_permissions\<close>: an unknown league raises \<^verbatim>\<open>NotFound\<close>; a method that is not
  safe is denied unless the league is active and has submissions enabled; an
  authenticated user must be on a team of the league, which is stored in
  \<^verbatim>\<open>kwargs['team']\<close> (the result here; \<open>None\<close> when the user is anonymous and
  nothing is stored).
\<close>

definition get_permissions :: "db \<Rightarrow> request \<Rightarrow> int \<Rightarrow> exc + team option" where
  "get_permissions d request league_id =
     (case qs_get league_pk (leagues d) league_id of
        Inl DoesNotExist \<Rightarrow> Inl NotFound
      | Inl e \<Rightarrow> Inl e
      | Inr league \<Rightarrow>
          if http_method request \<notin> set SAFE_METHODS
             \<and> \<not> (active league \<and> submissions_enabled league)
          then Inl PermissionDenied
          else
            (case user request of
               None \<Rightarrow> Inr None
             | Some user_id \<Rightarrow>
                 (case get_team d league_id user_id of
                    Inl e \<Rightarrow> Inl e
                  | Inr None \<Rightarrow> Inl PermissionDenied
                  | Inr (Some team) \<Rightarrow> Inr (Some team))))"

text \<open>
  What the REST framework does before it calls a view method: it evaluates
  \<^verbatim>\<open>get_permissions\<close> and checks the permission returned, \<^verbatim>\<open>IsAuthenticated\<close>, which
  refuses an anonymous user. The result is the team passed to the view method.
\<close>

definition initial :: "db \<Rightarrow> request \<Rightarrow> int \<Rightarrow> exc + team" where
  "initial d request league_id =
     (case get_permissions d request league_id of
        Inl e \<Rightarrow> Inl e
      | Inr kwargs_team \<Rightarrow>
          (case user request of
             None \<Rightarrow> Inl NotAuthenticated
           | Some user_id \<Rightarrow>
               (case kwargs_team of
                  None \<Rightarrow> Inl (KeyError ''team'')
                | Some team \<Rightarrow> Inr team)))"

section \<open>ScrimmageViewSet: accept, reject, cancel\<close>

text \<open>
  \<^verbatim>\<open>get_queryset\<close>: the scrimmages in descending order of the time of request, of
  which the team is the red or the blue team.
\<close>

definition get_queryset :: "db \<Rightarrow> team \<Rightarrow> scrimmage list" where
  "get_queryset d team =
     filter (\<lambda>s. red_team s = team_pk team \<or> blue_team s = team_pk team)
       (sort_key (\<lambda>s. - requested_at s) (scrimmages d))"

text \<open>
  \<^verbatim>\<open>scrimmage.save()\<close>: the row with the primary key of the object is replaced by the
  object; when there is no such row the object is inserted.
\<close>

definition save :: "scrimmage \<Rightarrow> db \<Rightarrow> db" where
  "save s d =
     d\<lparr>scrimmages :=
         (if scrimmage_pk s \<in> scrimmage_pk ` set (scrimmages d)
          then map (\<lambda>r. if scrimmage_pk r = scrimmage_pk s then s else r) (scrimmages d)
          else scrimmages d @ [s])\<rparr>"

text \<open>
  The three transitions. Each returns the response (or the exception that leaves the
  method) and the database after the call. \<^verbatim>\<open>scrimmage.red_team.id\<close> is the foreign key
  \<open>red_team\<close> of the row. Only \<^verbatim>\<open>accept\<close> calls \<^verbatim>\<open>scrimmage.save()\<close>.
\<close>

definition accept :: "db \<Rightarrow> team \<Rightarrow> int \<Rightarrow> (exc + response) \<times> db" where
  "accept d team pk =
     (case qs_get scrimmage_pk (get_queryset d team) pk of
        Inl DoesNotExist \<Rightarrow>
          (Inr (Response (Message ''Scrimmage does not exist.'') HTTP_404_NOT_FOUND), d)
      | Inl e \<Rightarrow> (Inl e, d)
      | Inr scrimmage \<Rightarrow>
          if requested_by scrimmage = team_pk team then
            (Inr (Response (Message ''Cannot accept an outgoing scrimmage.'') HTTP_400_BAD_REQUEST), d)
          else if status scrimmage \<noteq> ''pending'' then
            (Inr (Response (Message ''Scrimmage is not pending.'') HTTP_400_BAD_REQUEST), d)
          else
            (let scrimmage1 = scrimmage\<lparr>status := ''queued''\<rparr>;
                 red_sub = get_submission d (red_team scrimmage1);
                 blue_sub = get_submission d (blue_team scrimmage1)
             in case (red_sub, blue_sub) of
                  (Some r, Some b) \<Rightarrow>
                    (let scrimmage2 = scrimmage1\<lparr>red_submission := Some (submission_pk r),
                                                 blue_submission := Some (submission_pk b)\<rparr>
                     in (Inr (Response (Data scrimmage2) HTTP_200_OK), save scrimmage2 d))
                | _ \<Rightarrow>
                    (Inr (Response (Message ''Teams should have submissions if queued'')
                            HTTP_500_INTERNAL_SERVER_ERROR), d)))"

definition reject :: "db \<Rightarrow> team \<Rightarrow> int \<Rightarrow> (exc + response) \<times> db" where
  "reject d team pk =
     (case qs_get scrimmage_pk (get_queryset d team) pk of
        Inl DoesNotExist \<Rightarrow>
          (Inr (Response (Message ''Scrimmage does not exist.'') HTTP_404_NOT_FOUND), d)
      | Inl e \<Rightarrow> (Inl e, d)
      | Inr scrimmage \<Rightarrow>
          if requested_by scrimmage = team_pk team then
            (Inr (Response (Message ''Cannot reject an outgoing scrimmage.'') HTTP_400_BAD_REQUEST), d)
          else if status scrimmage \<noteq> ''pending'' then
            (Inr (Response (Message ''Scrimmage is not pending.'') HTTP_400_BAD_REQUEST), d)
          else
            (let scrimmage1 = scrimmage\<lparr>status := ''rejected''\<rparr>
             in (Inr (Response (Data scrimmage1) HTTP_200_OK), d)))"

definition cancel :: "db \<Rightarrow> team \<Rightarrow> int \<Rightarrow> (exc + response) \<times> db" where
  "cancel d team pk =
     (case qs_get scrimmage_pk (get_queryset d team) pk of
        Inl DoesNotExist \<Rightarrow>
          (Inr (Response (Message ''Scrimmage does not exist.'') HTTP_404_NOT_FOUND), d)
      | Inl e \<Rightarrow> (Inl e, d)
      | Inr scrimmage \<Rightarrow>
          if requested_by scrimmage \<noteq> team_pk team then
            (Inr (Response (Message ''Cannot cancel an incoming scrimmage.'') HTTP_400_BAD_REQUEST), d)
          else if status scrimmage \<noteq> ''pending'' then
            (Inr (Response (Message ''Scrimmage is not pending.'') HTTP_400_BAD_REQUEST), d)
          else
            (let scrimmage1 = scrimmage\<lparr>status := ''cancelled''\<rparr>
             in (Inr (Response (Data scrimmage1) HTTP_200_OK), d)))"


section \<open>ScrimmageViewSet: create\<close>

text \<open>
  The dictionary handed to the serializer. The keys \<^verbatim>\<open>red_submission\<close>,
  \<^verbatim>\<open>blue_submission\<close> and \<^verbatim>\<open>status\<close> are present only when the scrimmage is
  accepted automatically.
\<close>

record scrimmage_data =
  data_league :: int
  data_red_team :: int
  data_blue_team :: int
  data_map :: int
  data_ranked :: bool
  data_requested_by :: int
  data_red_submission :: "int option"
  data_blue_submission :: "int option"
  data_status :: "string option"

text \<open>
  Modelled from the spec: \<^verbatim>\<open>ScrimmageSerializer\<close> and the Scrimmage model are declared
  in modules that are not part of the file. The serializer is a parameter of \<open>create\<close>:
  \<open>is_valid\<close> is its validation of the dictionary, \<open>new_pk\<close> the primary key and
  \<open>now\<close> the time of request that the database gives to the new row. Per the data model
  and the lifecycle of the specification, a scrimmage is created with status
  \<^verbatim>\<open>pending\<close> and with no submission bound, unless the dictionary says otherwise.
\<close>

record serializer =
  is_valid :: "scrimmage_data \<Rightarrow> bool"
  new_pk :: int
  now :: int

definition serializer_save :: "serializer \<Rightarrow> scrimmage_data \<Rightarrow> scrimmage" where
  "serializer_save ser dat =
     \<lparr>scrimmage_pk = new_pk ser,
      scrimmage_league = data_league dat,
      red_team = data_red_team dat,
      blue_team = data_blue_team dat,
      scrimmage_map = data_map dat,
      ranked = data_ranked dat,
      requested_by = data_requested_by dat,
      status = (case data_status dat of None \<Rightarrow> ''pending'' | Some st \<Rightarrow> st),
      red_submission = data_red_submission dat,
      blue_submission = data_blue_submission dat,
      requested_at = now ser\<rparr>"

text \<open>Sequencing of calls that may raise: the first exception stops the rest.\<close>

definition try_bind :: "exc + 'a \<Rightarrow> ('a \<Rightarrow> exc + 'b) \<Rightarrow> exc + 'b" where
  "try_bind m f = (case m of Inl e \<Rightarrow> Inl e | Inr x \<Rightarrow> f x)"

text \<open>\<^verbatim>\<open>int(request.data[key])\<close>.\<close>

definition int_field :: "request \<Rightarrow> string \<Rightarrow> exc + int" where
  "int_field request k = try_bind (getitem (data request) k) py_int"

text \<open>\<^verbatim>\<open>x.id\<close> where \<^verbatim>\<open>x\<close> is a team or \<open>None\<close>.\<close>

definition attr_id :: "team option \<Rightarrow> exc + int" where
  "attr_id x =
     (case x of
        None \<Rightarrow> Inl (AttributeError ''NoneType object has no attribute id'')
      | Some t \<Rightarrow> Inr (team_pk t))"

text \<open>
  The body of \<^verbatim>\<open>create\<close> from \<^verbatim>\<open># Validate teams\<close> on, after the branch
  on the side of the user's team has bound \<^verbatim>\<open>red_team\<close>, \<^verbatim>\<open>blue_team\<close>,
  \<^verbatim>\<open>this_team\<close> and \<^verbatim>\<open>that_team\<close>. The submissions are looked up by the ids of
  the request, \<^verbatim>\<open>red_team_id\<close> and \<^verbatim>\<open>blue_team_id\<close>.
\<close>

definition create_validated ::
  "serializer \<Rightarrow> db \<Rightarrow> int \<Rightarrow> int \<Rightarrow> int \<Rightarrow> int \<Rightarrow> bool \<Rightarrow>
   team option \<Rightarrow> team option \<Rightarrow> team option \<Rightarrow> team option \<Rightarrow> exc + response \<times> db" where
  "create_validated ser d league_id red_team_id blue_team_id map_id is_ranked
       red_team' blue_team' this_team that_team =
     (case that_team of
        None \<Rightarrow> Inr (Response (Message ''Requested team does not exist'') HTTP_404_NOT_FOUND, d)
      | Some that \<Rightarrow>
          try_bind (get_map d league_id map_id) (\<lambda>scrim_map.
            case scrim_map of
              None \<Rightarrow> Inr (Response (Message ''Requested map does not exist'') HTTP_404_NOT_FOUND, d)
            | Some m \<Rightarrow>
                try_bind (attr_id red_team') (\<lambda>red_id.
                try_bind (attr_id blue_team') (\<lambda>blue_id.
                try_bind (attr_id this_team) (\<lambda>this_id.
                  let dat = \<lparr>data_league = league_id,
                             data_red_team = red_id,
                             data_blue_team = blue_id,
                             data_map = map_pk m,
                             data_ranked = is_ranked,
                             data_requested_by = this_id,
                             data_red_submission = None,
                             data_blue_submission = None,
                             data_status = None\<rparr>
                  in case (get_submission d red_team_id, get_submission d blue_team_id) of
                       (Some red_sub, Some blue_sub) \<Rightarrow>
                         (let dat' =
                                (if (is_ranked \<and> auto_accept_ranked that)
                                    \<or> (\<not> is_ranked \<and> auto_accept_unranked that)
                                 then dat\<lparr>data_red_submission := Some (submission_pk red_sub),
                                          data_blue_submission := Some (submission_pk blue_sub),
                                          data_status := Some ''queued''\<rparr>
                                 else dat)
                          in if \<not> is_valid ser dat'
                             then Inr (Response Errors HTTP_400_BAD_REQUEST, d)
                             else Inr (Response (Data (serializer_save ser dat')) HTTP_201_CREATED,
                                       d\<lparr>scrimmages := scrimmages d @ [serializer_save ser dat']\<rparr>))
                     | _ \<Rightarrow>
                         Inr (Response (Message ''Teams do not have submissions'')
                                HTTP_400_BAD_REQUEST, d))))))"

text \<open>
  The \<^verbatim>\<open>try\<close> block of \<^verbatim>\<open>create\<close>: the fields of the request are read, then the
  other team is looked up with \<^verbatim>\<open>get_team(league_id, red_team_id)\<close>, respectively
  \<^verbatim>\<open>get_team(league_id, blue_team_id)\<close>, where the second argument of \<open>get_team\<close> is
  its \<^verbatim>\<open>user_id\<close>.
\<close>

definition create_try ::
  "serializer \<Rightarrow> db \<Rightarrow> request \<Rightarrow> int \<Rightarrow> team \<Rightarrow> exc + response \<times> db" where
  "create_try ser d request league_id team =
     try_bind (int_field request ''red_team'') (\<lambda>red_team_id.
     try_bind (int_field request ''blue_team'') (\<lambda>blue_team_id.
     try_bind (int_field request ''map'') (\<lambda>map_id.
     try_bind (getitem (data request) ''ranked'') (\<lambda>ranked_field.
       let is_ranked = eq_True_str ranked_field in
       if team_pk team = blue_team_id then
         try_bind (get_team d league_id red_team_id) (\<lambda>red_team'.
           create_validated ser d league_id red_team_id blue_team_id map_id is_ranked
             red_team' (Some team) (Some team) red_team')
       else if team_pk team = red_team_id then
         try_bind (get_team d league_id blue_team_id) (\<lambda>blue_team'.
           create_validated ser d league_id red_team_id blue_team_id map_id is_ranked
             (Some team) blue_team' (Some team) blue_team')
       else
         Inr (Response (Message ''Scrimmage does not include my team'') HTTP_400_BAD_REQUEST, d)))))"

text \<open>
  \<^verbatim>\<open>create\<close>: every exception raised in the \<^verbatim>\<open>try\<close> block is turned into a response
  with status 400 whose message joins the arguments of the exception, or is
  \<^verbatim>\<open>Unknown Error\<close> when it has none.
\<close>

definition create :: "serializer \<Rightarrow> db \<Rightarrow> request \<Rightarrow> int \<Rightarrow> team \<Rightarrow> response \<times> db" where
  "create ser d request league_id team =
     (case create_try ser d request league_id team of
        Inr r \<Rightarrow> r
      | Inl e \<Rightarrow>
          (Response (Message (if length (exc_args e) > 0 then join '','' (exc_args e)
                              else ''Unknown Error''))
             HTTP_400_BAD_REQUEST, d))"

section \<open>ScrimmageViewSet: the requests\<close>

text \<open>
  A request to one of the routes of the view set: the framework runs \<open>initial\<close>, then
  calls the method bound to the HTTP method of the route (POST for \<^verbatim>\<open>create\<close>, PATCH
  for the three actions) and answers any other method with \<^verbatim>\<open>MethodNotAllowed\<close>.
\<close>

definition create_request ::
  "serializer \<Rightarrow> db \<Rightarrow> request \<Rightarrow> int \<Rightarrow> (exc + response) \<times> db" where
  "create_request ser d request league_id =
     (case initial d request league_id of
        Inl e \<Rightarrow> (Inl e, d)
      | Inr team \<Rightarrow>
          if http_method request = ''POST''
          then (case create ser d request league_id team of (r, d') \<Rightarrow> (Inr r, d'))
          else (Inl MethodNotAllowed, d))"

definition action_request ::
  "(db \<Rightarrow> team \<Rightarrow> int \<Rightarrow> (exc + response) \<times> db) \<Rightarrow>
   db \<Rightarrow> request \<Rightarrow> int \<Rightarrow> int \<Rightarrow> (exc + response) \<times> db" where
  "action_request act d request league_id pk =
     (case initial d request league_id of
        Inl e \<Rightarrow> (Inl e, d)
      | Inr team \<Rightarrow>
          if http_method request = ''PATCH'' then act d team pk
          else (Inl MethodNotAllowed, d))"

definition accept_request :: "db \<Rightarrow> request \<Rightarrow> int \<Rightarrow> int \<Rightarrow> (exc + response) \<times> db" where
  "accept_request = action_request accept"

definition reject_request :: "db \<Rightarrow> request \<Rightarrow> int \<Rightarrow> int \<Rightarrow> (exc + response) \<times> db" where
  "reject_request = action_request reject"

definition cancel_request :: "db \<Rightarrow> request \<Rightarrow> int \<Rightarrow> int \<Rightarrow> (exc + response) \<times> db" where
  "cancel_request = action_request cancel"


section \<open>TournamentViewSet: bracket\<close>

text \<open>
  Modelled from the spec: the Tournament model is declared in a module that is not part
  of the file. Per the data model, a tournament has a visibility flag and rounds, a
  round has a label and games, and a game has its index, its two teams and at most three
  match results, each with the winning team and the replay.
\<close>

record match_result =
  match_winner :: int
  match_replay :: string

record game =
  game_index :: int
  game_red_team :: int
  game_blue_team :: int
  matches :: "match_result list"

record tournament_round =
  round_label :: string
  games :: "game list"

record tournament =
  tournament_pk :: int
  tournament_hidden :: bool
  rounds :: "tournament_round list"

text \<open>
  An entry of the bracket, as the docstring of \<^verbatim>\<open>bracket\<close> lays it out:
  \<^verbatim>\<open>replays\<close>, \<^verbatim>\<open>winner_ids\<close> and \<^verbatim>\<open>winner_id\<close> of a game.
\<close>

record game_entry =
  entry_index :: int
  replays :: "string list"
  winner_ids :: "int list"
  winner_id :: "int option"

record round_entry =
  entry_round :: string
  entry_games :: "game_entry list"

text \<open>
  The view set the method is called on: the tournaments that are not hidden, the primary
  key of the route and the \<^verbatim>\<open>format\<close> parameter of the request.
\<close>

record tournament_viewset =
  queryset :: "tournament list"
  kwargs_pk :: int
  format_param :: "string option"

text \<open>
  \<^verbatim>\<open>bracket(self)\<close>: the body of the method is the docstring followed by
  \<^verbatim>\<open>pass\<close>, so it returns \<open>None\<close> for every view set.
\<close>

definition bracket :: "tournament_viewset \<Rightarrow> round_entry list option" where
  "bracket self = None"

section \<open>Notions of the specification\<close>

text \<open>
  A most recent submission of a team: a submission of the team such that no submission
  of the team was submitted later.
\<close>

definition most_recent :: "db \<Rightarrow> int \<Rightarrow> submission \<Rightarrow> bool" where
  "most_recent d team_id r =
     (r \<in> set (submissions d) \<and> submission_team r = team_id \<and>
      list_all (\<lambda>x. submission_team x = team_id \<longrightarrow> submitted_at x \<le> submitted_at r)
        (submissions d))"

text \<open>
  The conflict error of the transitions: the response with status 400 that says that the
  scrimmage is not in the state the transition needs.
\<close>

definition conflict_error :: "(exc + response) \<times> db \<Rightarrow> bool" where
  "conflict_error res =
     (fst res = Inr (Response (Message ''Scrimmage is not pending.'') HTTP_400_BAD_REQUEST))"

text \<open>A call succeeds when it returns a response with status 200.\<close>

definition succeeds :: "(exc + response) \<times> db \<Rightarrow> bool" where
  "succeeds res = (case fst res of Inr r \<Rightarrow> status_code r = HTTP_200_OK | Inl e \<Rightarrow> False)"

text \<open>The rows with a given primary key that the scrimmage table holds.\<close>

definition stored :: "db \<Rightarrow> int \<Rightarrow> scrimmage list" where
  "stored d pk = filter (\<lambda>s. scrimmage_pk s = pk) (scrimmages d)"

section \<open>A league for the examples\<close>

definition league1 :: league where
  "league1 = \<lparr>league_pk = 1, active = True, submissions_enabled = True\<rparr>"

definition team_R :: team where
  "team_R = \<lparr>team_pk = 1, team_league = 1, users = [10],
             auto_accept_ranked = False, auto_accept_unranked = False, deleted = False\<rparr>"

definition team_B :: team where
  "team_B = \<lparr>team_pk = 2, team_league = 1, users = [20],
             auto_accept_ranked = True, auto_accept_unranked = False, deleted = False\<rparr>"

definition map1 :: league_map where
  "map1 = \<lparr>map_pk = 1, map_league = 1, hidden = False\<rparr>"

definition sub_R_old :: submission where
  "sub_R_old = \<lparr>submission_pk = 100, submission_team = 1, submitted_at = 5\<rparr>"

definition sub_R_new :: submission where
  "sub_R_new = \<lparr>submission_pk = 101, submission_team = 1, submitted_at = 9\<rparr>"

definition sub_B :: submission where
  "sub_B = \<lparr>submission_pk = 200, submission_team = 2, submitted_at = 7\<rparr>"

definition scrim_pending :: scrimmage where
  "scrim_pending =
     \<lparr>scrimmage_pk = 1, scrimmage_league = 1, red_team = 1, blue_team = 2, scrimmage_map = 1,
      ranked = True, requested_by = 1, status = ''pending'',
      red_submission = None, blue_submission = None, requested_at = 3\<rparr>"

text \<open>Team R has asked team B for a ranked scrimmage, which is pending.\<close>

definition db_pending :: db where
  "db_pending =
     \<lparr>leagues = [league1], teams = [team_R, team_B],
      submissions = [sub_R_old, sub_R_new, sub_B], maps = [map1],
      scrimmages = [scrim_pending]\<rparr>"

text \<open>The same scrimmage after it has been queued.\<close>

definition scrim_queued :: scrimmage where
  "scrim_queued = scrim_pending\<lparr>status := ''queued'', red_submission := Some 101,
                                blue_submission := Some 200\<rparr>"

definition db_queued :: db where
  "db_queued = db_pending\<lparr>scrimmages := [scrim_queued]\<rparr>"

text \<open>The league with submissions switched off.\<close>

definition db_submissions_off :: db where
  "db_submissions_off = db_pending\<lparr>leagues := [league1\<lparr>submissions_enabled := False\<rparr>]\<rparr>"

definition patch_by :: "int \<Rightarrow> request" where
  "patch_by u = \<lparr>http_method = ''PATCH'', user = Some u, data = []\<rparr>"

definition post_by :: "int \<Rightarrow> (string \<times> pyval) list \<Rightarrow> request" where
  "post_by u form = \<lparr>http_method = ''POST'', user = Some u, data = form\<rparr>"

definition accept_all :: serializer where
  "accept_all = \<lparr>is_valid = (\<lambda>dat. True), new_pk = 2, now = 11\<rparr>"


text \<open>
  A third team with the primary key 20, which is also the id of the user on team B.
\<close>

definition team_20 :: team where
  "team_20 = \<lparr>team_pk = 20, team_league = 1, users = [30],
              auto_accept_ranked = False, auto_accept_unranked = False, deleted = False\<rparr>"

definition sub_20 :: submission where
  "sub_20 = \<lparr>submission_pk = 300, submission_team = 20, submitted_at = 8\<rparr>"

definition db_three_teams :: db where
  "db_three_teams =
     \<lparr>leagues = [league1], teams = [team_R, team_B, team_20],
      submissions = [sub_R_old, sub_R_new, sub_B, sub_20], maps = [map1],
      scrimmages = []\<rparr>"

text \<open>Two teams and no scrimmage yet.\<close>

definition db_two_teams :: db where
  "db_two_teams = db_pending\<lparr>scrimmages := []\<rparr>"

text \<open>
  A league in which the primary key of each team is also the id of its only user.
\<close>

definition team_1 :: team where
  "team_1 = \<lparr>team_pk = 1, team_league = 1, users = [1],
             auto_accept_ranked = False, auto_accept_unranked = False, deleted = False\<rparr>"

definition team_2 :: team where
  "team_2 = \<lparr>team_pk = 2, team_league = 1, users = [2],
             auto_accept_ranked = True, auto_accept_unranked = False, deleted = False\<rparr>"

definition db_aligned :: db where
  "db_aligned = db_pending\<lparr>teams := [team_1, team_2], scrimmages := []\<rparr>"

text \<open>User 20 is on the roster of two teams of the league.\<close>

definition team_B' :: team where
  "team_B' = \<lparr>team_pk = 3, team_league = 1, users = [20],
              auto_accept_ranked = False, auto_accept_unranked = False, deleted = False\<rparr>"

definition db_double_roster :: db where
  "db_double_roster = db_pending\<lparr>teams := [team_R, team_B, team_B'], scrimmages := []\<rparr>"

definition scrimmage_form :: "string \<Rightarrow> string \<Rightarrow> pyval \<Rightarrow> (string \<times> pyval) list" where
  "scrimmage_form red blue rk =
     [(''red_team'', PStr red), (''blue_team'', PStr blue), (''map'', PStr ''1''),
      (''ranked'', rk)]"

text \<open>
  A tournament of one round with one game, which the red team has won in two matches,
  and the entry that the docstring of \<^verbatim>\<open>bracket\<close> describes for the game in the
  \<^verbatim>\<open>replay\<close> format.
\<close>

definition view_AA :: tournament_viewset where
  "view_AA =
     \<lparr>queryset =
        [\<lparr>tournament_pk = 1, tournament_hidden = False,
          rounds =
            [\<lparr>round_label = ''1A'',
              games =
                [\<lparr>game_index = 0, game_red_team = 1, game_blue_team = 2,
                  matches = [\<lparr>match_winner = 1, match_replay = ''replay/1.bc18''\<rparr>,
                             \<lparr>match_winner = 1, match_replay = ''replay/2.bc18''\<rparr>]\<rparr>]\<rparr>]\<rparr>],
      kwargs_pk = 1, format_param = Some ''replay''\<rparr>"

definition bracket_AA :: "round_entry list" where
  "bracket_AA =
     [\<lparr>entry_round = ''1A'',
       entry_games =
         [\<lparr>entry_index = 0, replays = [''replay/1.bc18'', ''replay/2.bc18''],
           winner_ids = [1, 1], winner_id = Some 1\<rparr>]\<rparr>]"

text \<open>
  The scrimmage that a request of user 1 against team 2 creates when it is not ranked.
\<close>

definition scrim_created :: scrimmage where
  "scrim_created =
     \<lparr>scrimmage_pk = 2, scrimmage_league = 1, red_team = 1, blue_team = 2, scrimmage_map = 1,
      ranked = False, requested_by = 1, status = ''pending'',
      red_submission = None, blue_submission = None, requested_at = 11\<rparr>"

section \<open>Facts about the lookups\<close>

lemmas example_defs = league1_def team_R_def team_B_def map1_def sub_R_old_def sub_R_new_def
  sub_B_def scrim_pending_def db_pending_def scrim_queued_def db_queued_def
  db_submissions_off_def patch_by_def post_by_def accept_all_def team_20_def sub_20_def
  db_three_teams_def db_two_teams_def team_B'_def db_double_roster_def scrimmage_form_def
  team_1_def team_2_def db_aligned_def scrim_created_def

lemmas http_defs = HTTP_200_OK_def HTTP_201_CREATED_def HTTP_400_BAD_REQUEST_def
  HTTP_404_NOT_FOUND_def HTTP_500_INTERNAL_SERVER_ERROR_def

lemmas view_defs = qs_get_def get_queryset_def get_submission_def get_team_def get_map_def
  get_permissions_def initial_def action_request_def accept_request_def reject_request_def
  cancel_request_def create_request_def SAFE_METHODS_def

lemmas create_defs = create_def create_try_def create_validated_def try_bind_def int_field_def
  getitem_def py_int_def parse_int_def strip_def is_space_def is_digit_def digit_value_def
  eq_True_str_def attr_id_def serializer_save_def

lemma qs_get_Inr: "qs_get key rows pk = Inr r \<Longrightarrow> r \<in> set rows \<and> key r = pk"
proof -
  assume "qs_get key rows pk = Inr r"
  then have "filter (\<lambda>x. key x = pk) rows = [r]"
    by (auto simp: qs_get_def split: list.splits)
  then have "r \<in> set (filter (\<lambda>x. key x = pk) rows)" by simp
  then show ?thesis by simp
qed

lemma get_queryset_subset: "s \<in> set (get_queryset d team) \<Longrightarrow> s \<in> set (scrimmages d)"
  by (simp add: get_queryset_def)

lemma visible_scrimmage:
  assumes "qs_get scrimmage_pk (get_queryset d team) pk = Inr s"
  shows "s \<in> set (scrimmages d)" and "scrimmage_pk s = pk"
  using qs_get_Inr[OF assms] get_queryset_subset by auto

lemma save_existing:
  assumes "s \<in> set (scrimmages d)" and "scrimmage_pk s' = scrimmage_pk s"
  shows "set (stored (save s' d) (scrimmage_pk s)) = {s'}"
proof -
  have "scrimmage_pk s' \<in> scrimmage_pk ` set (scrimmages d)"
    using assms by force
  then have sv: "scrimmages (save s' d) =
      map (\<lambda>r. if scrimmage_pk r = scrimmage_pk s' then s' else r) (scrimmages d)"
    by (simp add: save_def)
  have "s' \<in> set (scrimmages (save s' d))"
    unfolding sv using assms by force
  moreover have "x = s'"
    if "x \<in> set (scrimmages (save s' d))" and "scrimmage_pk x = scrimmage_pk s" for x
    using that assms(2) unfolding sv by (auto split: if_splits)
  ultimately show ?thesis
    using assms(2) by (auto simp: stored_def)
qed

lemma sort_key_Nil: "sort_key f xs = [] \<longleftrightarrow> xs = []"
  by (metis length_sort length_0_conv)

lemma get_submission_None:
  "get_submission d team_id = None \<longleftrightarrow> \<not> (\<exists>x \<in> set (submissions d). submission_team x = team_id)"
  by (auto simp: get_submission_def Let_def sort_key_Nil filter_empty_conv)

lemma hd_sort_key_le:
  assumes "x \<in> set xs"
  shows "f (hd (sort_key f xs)) \<le> f x"
proof -
  have "sort_key f xs \<noteq> []" using assms by (auto simp: sort_key_Nil)
  then obtain y ys where ys: "sort_key f xs = y # ys" by (cases "sort_key f xs") auto
  have "sorted (map f (sort_key f xs))" by (rule sorted_sort_key)
  with ys have "\<forall>z \<in> set ys. f y \<le> f z" by simp
  moreover have "x \<in> set (y # ys)" using assms ys by (metis set_sort)
  ultimately show ?thesis using ys by auto
qed

lemma get_submission_most_recent:
  assumes "get_submission d team_id = Some r"
  shows "most_recent d team_id r"
proof -
  let ?xs = "filter (\<lambda>s. submission_team s = team_id) (submissions d)"
  let ?ys = "sort_key (\<lambda>s. - submitted_at s) ?xs"
  from assms have ne: "?ys \<noteq> []" and r: "r = hd ?ys"
    by (auto simp: get_submission_def Let_def split: if_splits)
  then have "r \<in> set ?ys" by (metis hd_in_set)
  then have "r \<in> set ?xs" by (simp only: set_sort)
  then have a: "r \<in> set (submissions d)" "submission_team r = team_id" by simp_all
  have "submitted_at x \<le> submitted_at r"
    if "x \<in> set (submissions d)" and "submission_team x = team_id" for x
  proof -
    from that have "x \<in> set ?xs" by simp
    from hd_sort_key_le[OF this, of "\<lambda>s. - submitted_at s"] r show ?thesis by simp
  qed
  with a show ?thesis by (auto simp: most_recent_def list_all_iff)
qed

lemma get_team_cases:
  "get_team d league_id user_id =
     (case filter (\<lambda>t. team_league t = league_id \<and> user_id \<in> set (users t)) (teams d) of
        [] \<Rightarrow> Inr None
      | [t] \<Rightarrow> Inr (Some t)
      | _ \<Rightarrow> Inl InternalError)"
  by (simp add: get_team_def Let_def split: list.splits)

lemma initial_raises_InternalError:
  assumes "qs_get league_pk (leagues d) league_id = Inr l"
    and "http_method request \<in> set SAFE_METHODS \<or> (active l \<and> submissions_enabled l)"
    and "user request = Some user_id"
    and "get_team d league_id user_id = Inl InternalError"
  shows "initial d request league_id = Inl InternalError"
  using assms by (auto simp: initial_def get_permissions_def)

lemma try_bind_Inr: "try_bind m f = Inr y \<longleftrightarrow> (\<exists>x. m = Inr x \<and> f x = Inr y)"
  by (cases m) (simp_all add: try_bind_def)

lemma eq_True_str_iff: "eq_True_str v \<longleftrightarrow> v = PStr ''True''"
  by (cases v) (simp_all add: eq_True_str_def)

lemma getitem_Inr: "getitem dat k = Inr v \<longleftrightarrow> map_of dat k = Some v"
  by (simp add: getitem_def split: option.splits)

lemma create_validated_Data:
  assumes "create_validated ser d league_id red_team_id blue_team_id map_id is_ranked
             red_team' blue_team' this_team that_team = Inr (Response (Data s) c, d')"
  shows "\<exists>that. that_team = Some that \<and> ranked s = is_ranked \<and>
           (status s = ''queued'') =
             (if is_ranked then auto_accept_ranked that else auto_accept_unranked that) \<and>
           red_submission s =
             (if status s = ''queued''
              then map_option submission_pk (get_submission d red_team_id) else None) \<and>
           blue_submission s =
             (if status s = ''queued''
              then map_option submission_pk (get_submission d blue_team_id) else None)"
proof (cases that_team)
  case None
  with assms show ?thesis by (simp add: create_validated_def)
next
  case (Some that)
  note cv = assms[unfolded create_validated_def try_bind_def Some option.case]
  from cv obtain m where m: "get_map d league_id map_id = Inr (Some m)"
    by (cases "get_map d league_id map_id") (auto split: option.splits)
  note cv = cv[unfolded m sum.case option.case]
  from cv obtain red_id where red_id: "attr_id red_team' = Inr red_id"
    by (cases "attr_id red_team'") auto
  note cv = cv[unfolded red_id sum.case]
  from cv obtain blue_id where blue_id: "attr_id blue_team' = Inr blue_id"
    by (cases "attr_id blue_team'") auto
  note cv = cv[unfolded blue_id sum.case]
  from cv obtain this_id where this_id: "attr_id this_team = Inr this_id"
    by (cases "attr_id this_team") auto
  note cv = cv[unfolded this_id sum.case Let_def]
  from cv obtain red_sub where red_sub: "get_submission d red_team_id = Some red_sub"
    by (cases "get_submission d red_team_id") auto
  note cv = cv[unfolded red_sub]
  from cv obtain blue_sub where blue_sub: "get_submission d blue_team_id = Some blue_sub"
    by (cases "get_submission d blue_team_id") auto
  note cv = cv[unfolded blue_sub prod.case option.case]
  from cv red_sub blue_sub have "ranked s = is_ranked \<and>
           (status s = ''queued'') =
             (if is_ranked then auto_accept_ranked that else auto_accept_unranked that) \<and>
           red_submission s =
             (if status s = ''queued''
              then map_option submission_pk (get_submission d red_team_id) else None) \<and>
           blue_submission s =
             (if status s = ''queued''
              then map_option submission_pk (get_submission d blue_team_id) else None)"
    by (auto simp: serializer_save_def split: if_splits)
  with Some show ?thesis by simp
qed

lemma reject_and_cancel_never_save:
  "snd (reject d team pk) = d \<and> snd (cancel d team pk) = d"
  by (simp add: reject_def cancel_def Let_def split: sum.splits exc.splits list.splits)

section \<open>The bracket of a tournament\<close>

text \<open>
  Claim C1. The docstring of \<^verbatim>\<open>bracket\<close> promises, for a game that one team wins in
  the first two matches, the two replays and the winner in the \<^verbatim>\<open>replay\<close> format.
  The method returns \<open>None\<close> instead: for the tournament with one such game it does
  not return the bracket that the docstring describes.
\<close>

theorem bracket_returns_nothing:
  "bracket view_AA = None \<and> bracket view_AA \<noteq> Some bracket_AA"
  by (simp add: bracket_def)

section \<open>The transitions of a scrimmage\<close>

text \<open>
  Claim C2. A pending scrimmage is stored; the invited team rejects it, respectively
  the requesting team cancels it. Both calls answer with status 200 and report the new
  status in the response, and both leave the database as it was, so the stored row is
  still pending. The same call to \<^verbatim>\<open>accept\<close> does store the queued row.
\<close>

theorem reject_and_cancel_store_nothing:
  "stored db_pending 1 = [scrim_pending] \<and> status scrim_pending = ''pending'' \<and>
   reject_request db_pending (patch_by 20) 1 1 =
     (Inr (Response (Data (scrim_pending\<lparr>status := ''rejected''\<rparr>)) HTTP_200_OK), db_pending) \<and>
   cancel_request db_pending (patch_by 10) 1 1 =
     (Inr (Response (Data (scrim_pending\<lparr>status := ''cancelled''\<rparr>)) HTTP_200_OK), db_pending) \<and>
   accept_request db_pending (patch_by 20) 1 1 =
     (Inr (Response (Data scrim_queued) HTTP_200_OK), db_queued) \<and>
   stored db_queued 1 = [scrim_queued]"
  by (simp add: example_defs http_defs view_defs stored_def accept_def reject_def cancel_def
      save_def Let_def)

text \<open>
  Claim C4. When \<^verbatim>\<open>accept\<close> is called on a pending scrimmage by a team that did not
  request it, and both teams have a submission, the scrimmage is saved with status
  \<^verbatim>\<open>queued\<close> and with a most recent submission of the red team and of the blue
  team, looked up in the database of the call; the table then holds this row and no
  other under the primary key. When one of the two teams has no submission, the call
  answers with status 500 and stores nothing.
\<close>

theorem accept_binds_most_recent:
  assumes "qs_get scrimmage_pk (get_queryset d team) pk = Inr s"
    and "requested_by s \<noteq> team_pk team"
    and "status s = ''pending''"
  shows "if (\<exists>x \<in> set (submissions d). submission_team x = red_team s) \<and>
            (\<exists>x \<in> set (submissions d). submission_team x = blue_team s)
         then \<exists>r b. most_recent d (red_team s) r \<and> most_recent d (blue_team s) b \<and>
                accept d team pk =
                  (Inr (Response (Data (s\<lparr>status := ''queued'',
                                          red_submission := Some (submission_pk r),
                                          blue_submission := Some (submission_pk b)\<rparr>))
                          HTTP_200_OK),
                   save (s\<lparr>status := ''queued'',
                           red_submission := Some (submission_pk r),
                           blue_submission := Some (submission_pk b)\<rparr>) d) \<and>
                set (stored (snd (accept d team pk)) pk) =
                  {s\<lparr>status := ''queued'',
                     red_submission := Some (submission_pk r),
                     blue_submission := Some (submission_pk b)\<rparr>}
         else accept d team pk =
                (Inr (Response (Message ''Teams should have submissions if queued'')
                        HTTP_500_INTERNAL_SERVER_ERROR), d)"
proof (cases "get_submission d (red_team s)")
  case None
  then have "\<not> (\<exists>x \<in> set (submissions d). submission_team x = red_team s)"
    using get_submission_None by blast
  moreover have "accept d team pk =
      (Inr (Response (Message ''Teams should have submissions if queued'')
              HTTP_500_INTERNAL_SERVER_ERROR), d)"
    using assms None by (simp add: accept_def Let_def)
  ultimately show ?thesis by simp
next
  case (Some r)
  note red = this
  show ?thesis
  proof (cases "get_submission d (blue_team s)")
    case None
    then have "\<not> (\<exists>x \<in> set (submissions d). submission_team x = blue_team s)"
      using get_submission_None by blast
    moreover have "accept d team pk =
        (Inr (Response (Message ''Teams should have submissions if queued'')
                HTTP_500_INTERNAL_SERVER_ERROR), d)"
      using assms None red by (simp add: accept_def Let_def)
    ultimately show ?thesis by simp
  next
    case (Some b)
    let ?s' = "s\<lparr>status := ''queued'', red_submission := Some (submission_pk r),
                 blue_submission := Some (submission_pk b)\<rparr>"
    have ex: "(\<exists>x \<in> set (submissions d). submission_team x = red_team s) \<and>
              (\<exists>x \<in> set (submissions d). submission_team x = blue_team s)"
      using red Some get_submission_None[of d "red_team s"] get_submission_None[of d "blue_team s"]
      by simp
    have acc: "accept d team pk = (Inr (Response (Data ?s') HTTP_200_OK), save ?s' d)"
      using assms red Some by (simp add: accept_def Let_def)
    have "set (stored (save ?s' d) (scrimmage_pk s)) = {?s'}"
      by (rule save_existing) (use visible_scrimmage[OF assms(1)] in simp_all)
    then have st: "set (stored (snd (accept d team pk)) pk) = {?s'}"
      using acc visible_scrimmage(2)[OF assms(1)] by simp
    show ?thesis
      unfolding if_P[OF ex]
      using acc st get_submission_most_recent[OF red] get_submission_most_recent[OF Some]
      by blast
  qed
qed

theorem accept_binds_most_recent_witness:
  "qs_get scrimmage_pk (get_queryset db_pending team_B) 1 = Inr scrim_pending \<and>
   requested_by scrim_pending \<noteq> team_pk team_B \<and>
   status scrim_pending = ''pending'' \<and>
   (\<exists>r b. most_recent db_pending 1 r \<and> most_recent db_pending 2 b \<and>
      accept db_pending team_B 1 =
        (Inr (Response (Data (scrim_pending\<lparr>status := ''queued'',
                                red_submission := Some (submission_pk r),
                                blue_submission := Some (submission_pk b)\<rparr>))
                HTTP_200_OK),
         save (scrim_pending\<lparr>status := ''queued'',
                 red_submission := Some (submission_pk r),
                 blue_submission := Some (submission_pk b)\<rparr>) db_pending) \<and>
      set (stored (snd (accept db_pending team_B 1)) 1) =
        {scrim_pending\<lparr>status := ''queued'',
           red_submission := Some (submission_pk r),
           blue_submission := Some (submission_pk b)\<rparr>}) \<and>
   accept db_pending team_B 1 = (Inr (Response (Data scrim_queued) HTTP_200_OK), db_queued)"
proof -
  have v: "qs_get scrimmage_pk (get_queryset db_pending team_B) 1 = Inr scrim_pending"
    by (simp add: example_defs qs_get_def get_queryset_def)
  have a: "requested_by scrim_pending \<noteq> team_pk team_B"
    by (simp add: example_defs)
  have p: "status scrim_pending = ''pending''"
    by (simp add: example_defs)
  have e: "(\<exists>x \<in> set (submissions db_pending). submission_team x = 1) \<and>
           (\<exists>x \<in> set (submissions db_pending). submission_team x = 2)"
    by (simp add: example_defs)
  have rb: "red_team scrim_pending = 1" "blue_team scrim_pending = 2"
    by (simp_all add: example_defs)
  have q: "accept db_pending team_B 1 = (Inr (Response (Data scrim_queued) HTTP_200_OK), db_queued)"
    by (simp add: example_defs http_defs accept_def qs_get_def get_queryset_def
        get_submission_def save_def Let_def)
  have "\<exists>r b. most_recent db_pending 1 r \<and> most_recent db_pending 2 b \<and>
      accept db_pending team_B 1 =
        (Inr (Response (Data (scrim_pending\<lparr>status := ''queued'',
                                red_submission := Some (submission_pk r),
                                blue_submission := Some (submission_pk b)\<rparr>))
                HTTP_200_OK),
         save (scrim_pending\<lparr>status := ''queued'',
                 red_submission := Some (submission_pk r),
                 blue_submission := Some (submission_pk b)\<rparr>) db_pending) \<and>
      set (stored (snd (accept db_pending team_B 1)) 1) =
        {scrim_pending\<lparr>status := ''queued'',
           red_submission := Some (submission_pk r),
           blue_submission := Some (submission_pk b)\<rparr>}"
    using accept_binds_most_recent[OF v a p] unfolding rb if_P[OF e] .
  with v a p q show ?thesis by blast
qed

text \<open>
  Claim C5. (as amended) When \<^verbatim>\<open>accept\<close>, \<^verbatim>\<open>reject\<close> or \<^verbatim>\<open>cancel\<close> is
  called on a scrimmage of the acting team that is not pending, the call answers with
  status 400 and leaves the database unchanged. The actor is checked before the status:
  the message is that of the conflict, \<^verbatim>\<open>Scrimmage is not pending.\<close>, when the acting
  team is the one the transition is for, and the message about the wrong actor otherwise.
\<close>

theorem refused_when_not_pending:
  assumes "qs_get scrimmage_pk (get_queryset d team) pk = Inr s"
    and "status s \<noteq> ''pending''"
  shows "accept d team pk =
           (Inr (Response (Message (if requested_by s = team_pk team
                                    then ''Cannot accept an outgoing scrimmage.''
                                    else ''Scrimmage is not pending.''))
                   HTTP_400_BAD_REQUEST), d) \<and>
         reject d team pk =
           (Inr (Response (Message (if requested_by s = team_pk team
                                    then ''Cannot reject an outgoing scrimmage.''
                                    else ''Scrimmage is not pending.''))
                   HTTP_400_BAD_REQUEST), d) \<and>
         cancel d team pk =
           (Inr (Response (Message (if requested_by s \<noteq> team_pk team
                                    then ''Cannot cancel an incoming scrimmage.''
                                    else ''Scrimmage is not pending.''))
                   HTTP_400_BAD_REQUEST), d)"
proof (intro conjI)
  show "accept d team pk =
           (Inr (Response (Message (if requested_by s = team_pk team
                                    then ''Cannot accept an outgoing scrimmage.''
                                    else ''Scrimmage is not pending.''))
                   HTTP_400_BAD_REQUEST), d)"
    using assms by (simp add: accept_def)
  show "reject d team pk =
           (Inr (Response (Message (if requested_by s = team_pk team
                                    then ''Cannot reject an outgoing scrimmage.''
                                    else ''Scrimmage is not pending.''))
                   HTTP_400_BAD_REQUEST), d)"
    using assms by (simp add: reject_def)
  show "cancel d team pk =
           (Inr (Response (Message (if requested_by s \<noteq> team_pk team
                                    then ''Cannot cancel an incoming scrimmage.''
                                    else ''Scrimmage is not pending.''))
                   HTTP_400_BAD_REQUEST), d)"
    using assms by (simp add: cancel_def)
qed

theorem refused_when_not_pending_witness:
  "qs_get scrimmage_pk (get_queryset db_queued team_B) 1 = Inr scrim_queued \<and>
   status scrim_queued \<noteq> ''pending'' \<and>
   accept db_queued team_B 1 =
     (Inr (Response (Message ''Scrimmage is not pending.'') HTTP_400_BAD_REQUEST), db_queued) \<and>
   reject db_queued team_B 1 =
     (Inr (Response (Message ''Scrimmage is not pending.'') HTTP_400_BAD_REQUEST), db_queued) \<and>
   cancel db_queued team_B 1 =
     (Inr (Response (Message ''Cannot cancel an incoming scrimmage.'') HTTP_400_BAD_REQUEST),
      db_queued)"
proof -
  have v: "qs_get scrimmage_pk (get_queryset db_queued team_B) 1 = Inr scrim_queued"
    by (simp add: example_defs qs_get_def get_queryset_def)
  have p: "status scrim_queued \<noteq> ''pending''"
    by (simp add: example_defs)
  have a: "requested_by scrim_queued \<noteq> team_pk team_B"
    by (simp add: example_defs)
  from refused_when_not_pending[OF v p] a v p show ?thesis by simp
qed

text \<open>
  Claim C5 as stated fails: the requesting team calls \<^verbatim>\<open>accept\<close> on its own scrimmage, which
  is queued: the answer is the error about the outgoing scrimmage, not the conflict error.
\<close>

theorem wrong_actor_not_conflict_error:
  "qs_get scrimmage_pk (get_queryset db_queued team_R) 1 = Inr scrim_queued \<and>
   status scrim_queued \<noteq> ''pending'' \<and>
   accept db_queued team_R 1 =
     (Inr (Response (Message ''Cannot accept an outgoing scrimmage.'') HTTP_400_BAD_REQUEST),
      db_queued) \<and>
   \<not> conflict_error (accept db_queued team_R 1)"
  by (simp add: example_defs http_defs conflict_error_def accept_def qs_get_def get_queryset_def)

text \<open>
  Claim C6. On a pending scrimmage of the acting team, \<^verbatim>\<open>accept\<close> succeeds only
  when the acting team is not the requesting team, \<^verbatim>\<open>reject\<close> succeeds exactly when
  it is not the requesting team, and \<^verbatim>\<open>cancel\<close> succeeds exactly when it is the
  requesting team; the call of the wrong team is refused with status 400 and its own
  message, and nothing is stored.
\<close>

theorem actor_constraint:
  assumes "qs_get scrimmage_pk (get_queryset d team) pk = Inr s"
    and "status s = ''pending''"
  shows "(succeeds (accept d team pk) \<longrightarrow> requested_by s \<noteq> team_pk team) \<and>
         (succeeds (reject d team pk) \<longleftrightarrow> requested_by s \<noteq> team_pk team) \<and>
         (succeeds (cancel d team pk) \<longleftrightarrow> requested_by s = team_pk team) \<and>
         (requested_by s = team_pk team \<longrightarrow>
            accept d team pk =
              (Inr (Response (Message ''Cannot accept an outgoing scrimmage.'')
                      HTTP_400_BAD_REQUEST), d) \<and>
            reject d team pk =
              (Inr (Response (Message ''Cannot reject an outgoing scrimmage.'')
                      HTTP_400_BAD_REQUEST), d)) \<and>
         (requested_by s \<noteq> team_pk team \<longrightarrow>
            cancel d team pk =
              (Inr (Response (Message ''Cannot cancel an incoming scrimmage.'')
                      HTTP_400_BAD_REQUEST), d))"
proof (intro conjI)
  show "succeeds (accept d team pk) \<longrightarrow> requested_by s \<noteq> team_pk team"
    using assms by (auto simp: accept_def succeeds_def http_defs)
  show "succeeds (reject d team pk) \<longleftrightarrow> requested_by s \<noteq> team_pk team"
    using assms by (auto simp: reject_def succeeds_def http_defs Let_def)
  show "succeeds (cancel d team pk) \<longleftrightarrow> requested_by s = team_pk team"
    using assms by (auto simp: cancel_def succeeds_def http_defs Let_def)
  show "requested_by s = team_pk team \<longrightarrow>
            accept d team pk =
              (Inr (Response (Message ''Cannot accept an outgoing scrimmage.'')
                      HTTP_400_BAD_REQUEST), d) \<and>
            reject d team pk =
              (Inr (Response (Message ''Cannot reject an outgoing scrimmage.'')
                      HTTP_400_BAD_REQUEST), d)"
    using assms by (simp add: accept_def reject_def)
  show "requested_by s \<noteq> team_pk team \<longrightarrow>
            cancel d team pk =
              (Inr (Response (Message ''Cannot cancel an incoming scrimmage.'')
                      HTTP_400_BAD_REQUEST), d)"
    using assms by (simp add: cancel_def)
qed

theorem actor_constraint_witness:
  "qs_get scrimmage_pk (get_queryset db_pending team_B) 1 = Inr scrim_pending \<and>
   qs_get scrimmage_pk (get_queryset db_pending team_R) 1 = Inr scrim_pending \<and>
   status scrim_pending = ''pending'' \<and>
   requested_by scrim_pending = team_pk team_R \<and>
   requested_by scrim_pending \<noteq> team_pk team_B \<and>
   succeeds (reject db_pending team_B 1) \<and>
   \<not> succeeds (cancel db_pending team_B 1) \<and>
   \<not> succeeds (accept db_pending team_R 1) \<and>
   \<not> succeeds (reject db_pending team_R 1) \<and>
   succeeds (cancel db_pending team_R 1) \<and>
   accept db_pending team_R 1 =
     (Inr (Response (Message ''Cannot accept an outgoing scrimmage.'') HTTP_400_BAD_REQUEST),
      db_pending) \<and>
   cancel db_pending team_B 1 =
     (Inr (Response (Message ''Cannot cancel an incoming scrimmage.'') HTTP_400_BAD_REQUEST),
      db_pending)"
proof -
  have vb: "qs_get scrimmage_pk (get_queryset db_pending team_B) 1 = Inr scrim_pending"
    by (simp add: example_defs qs_get_def get_queryset_def)
  have vr: "qs_get scrimmage_pk (get_queryset db_pending team_R) 1 = Inr scrim_pending"
    by (simp add: example_defs qs_get_def get_queryset_def)
  have p: "status scrim_pending = ''pending''"
    by (simp add: example_defs)
  have r: "requested_by scrim_pending = team_pk team_R"
    by (simp add: example_defs)
  have b: "requested_by scrim_pending \<noteq> team_pk team_B"
    by (simp add: example_defs)
  from actor_constraint[OF vb p] actor_constraint[OF vr p] vb vr p r b show ?thesis
    by blast
qed

section \<open>Permissions\<close>

text \<open>
  Claim C7. (as amended) In a league that is inactive or has submissions disabled,
  every request with a method that is not safe is refused with \<^verbatim>\<open>PermissionDenied\<close>
  before the view method runs, and nothing is stored: this holds for \<^verbatim>\<open>accept\<close>,
  \<^verbatim>\<open>reject\<close> and \<^verbatim>\<open>cancel\<close> as it does for \<^verbatim>\<open>create\<close>.
\<close>

theorem non_safe_methods_need_submissions_enabled:
  assumes "qs_get league_pk (leagues d) league_id = Inr l"
    and "\<not> (active l \<and> submissions_enabled l)"
    and "http_method request \<notin> set SAFE_METHODS"
  shows "accept_request d request league_id pk = (Inl PermissionDenied, d) \<and>
         reject_request d request league_id pk = (Inl PermissionDenied, d) \<and>
         cancel_request d request league_id pk = (Inl PermissionDenied, d) \<and>
         create_request ser d request league_id = (Inl PermissionDenied, d)"
proof -
  have "get_permissions d request league_id = Inl PermissionDenied"
    using assms by (simp add: get_permissions_def)
  then have "initial d request league_id = Inl PermissionDenied"
    by (simp add: initial_def)
  then show ?thesis
    by (simp add: accept_request_def reject_request_def cancel_request_def
        action_request_def create_request_def)
qed

theorem non_safe_methods_need_submissions_enabled_witness:
  "qs_get league_pk (leagues db_submissions_off) 1 = Inr (league1\<lparr>submissions_enabled := False\<rparr>) \<and>
   \<not> (active (league1\<lparr>submissions_enabled := False\<rparr>) \<and>
      submissions_enabled (league1\<lparr>submissions_enabled := False\<rparr>)) \<and>
   http_method (patch_by 20) \<notin> set SAFE_METHODS \<and>
   accept_request db_submissions_off (patch_by 20) 1 1 = (Inl PermissionDenied, db_submissions_off) \<and>
   reject_request db_submissions_off (patch_by 20) 1 1 = (Inl PermissionDenied, db_submissions_off) \<and>
   cancel_request db_submissions_off (patch_by 20) 1 1 = (Inl PermissionDenied, db_submissions_off) \<and>
   create_request accept_all db_submissions_off (patch_by 20) 1 =
     (Inl PermissionDenied, db_submissions_off)"
proof -
  have l: "qs_get league_pk (leagues db_submissions_off) 1 =
             Inr (league1\<lparr>submissions_enabled := False\<rparr>)"
    by (simp add: example_defs qs_get_def)
  have off: "\<not> (active (league1\<lparr>submissions_enabled := False\<rparr>) \<and>
                submissions_enabled (league1\<lparr>submissions_enabled := False\<rparr>))"
    by simp
  have m: "http_method (patch_by 20) \<notin> set SAFE_METHODS"
    by (simp add: patch_by_def SAFE_METHODS_def)
  from non_safe_methods_need_submissions_enabled[OF l off m, of 1 accept_all] l off m
  show ?thesis by blast
qed

text \<open>
  Claim C7 as stated fails: two databases that differ only in the
  \<^verbatim>\<open>submissions_enabled\<close> flag of the active league; with the flag set the three
  transitions succeed, without it each is refused with \<^verbatim>\<open>PermissionDenied\<close>.
\<close>

theorem submissions_toggle_changes_outcome:
  "leagues db_pending = [league1] \<and>
   leagues db_submissions_off = [league1\<lparr>submissions_enabled := False\<rparr>] \<and>
   active (league1\<lparr>submissions_enabled := False\<rparr>) \<and>
   db_submissions_off = db_pending\<lparr>leagues := [league1\<lparr>submissions_enabled := False\<rparr>]\<rparr> \<and>
   succeeds (accept_request db_pending (patch_by 20) 1 1) \<and>
   accept_request db_submissions_off (patch_by 20) 1 1 = (Inl PermissionDenied, db_submissions_off) \<and>
   succeeds (reject_request db_pending (patch_by 20) 1 1) \<and>
   reject_request db_submissions_off (patch_by 20) 1 1 = (Inl PermissionDenied, db_submissions_off) \<and>
   succeeds (cancel_request db_pending (patch_by 10) 1 1) \<and>
   cancel_request db_submissions_off (patch_by 10) 1 1 = (Inl PermissionDenied, db_submissions_off)"
  by (simp add: example_defs http_defs view_defs succeeds_def accept_def reject_def cancel_def
      save_def Let_def)

section \<open>Creating a scrimmage\<close>

text \<open>
  Claim C3. User 10 of team 1 asks for a ranked scrimmage against the blue team 20.
  \<^verbatim>\<open>create\<close> looks the other team up with 20 as a user id and finds team 2, which
  accepts ranked scrimmages automatically. The scrimmage is stored as queued with blue
  team 2 and with the blue submission 300, the latest submission of team 20, whereas
  the latest submission of team 2 is 200.
\<close>

theorem create_binds_submission_of_another_team:
  "create_request accept_all db_three_teams
     (post_by 10 (scrimmage_form ''1'' ''20'' (PStr ''True''))) 1 =
     (Inr (Response
        (Data \<lparr>scrimmage_pk = 2, scrimmage_league = 1, red_team = 1, blue_team = 2,
               scrimmage_map = 1, ranked = True, requested_by = 1, status = ''queued'',
               red_submission = Some 101, blue_submission = Some 300, requested_at = 11\<rparr>)
        HTTP_201_CREATED),
      db_three_teams\<lparr>scrimmages :=
        [\<lparr>scrimmage_pk = 2, scrimmage_league = 1, red_team = 1, blue_team = 2,
          scrimmage_map = 1, ranked = True, requested_by = 1, status = ''queued'',
          red_submission = Some 101, blue_submission = Some 300, requested_at = 11\<rparr>]\<rparr>) \<and>
   get_submission db_three_teams 2 = Some sub_B \<and> submission_pk sub_B = 200 \<and>
   get_submission db_three_teams 20 = Some sub_20 \<and> submission_pk sub_20 = 300"
  by (simp add: example_defs http_defs view_defs create_defs Let_def)

text \<open>
  Claim C8. User 20 is on two teams of the league. User 10 asks for a scrimmage
  against the blue team 20: the lookup of the other team raises \<^verbatim>\<open>InternalError\<close>,
  which the \<^verbatim>\<open>except\<close> clause of \<^verbatim>\<open>create\<close> turns into a response with status
  400 and the message \<^verbatim>\<open>Unknown Error\<close>. A request of user 20 itself raises
  \<^verbatim>\<open>InternalError\<close> in the permission check, where nothing catches it.
\<close>

theorem create_turns_internal_error_into_400:
  "get_team db_double_roster 1 20 = Inl InternalError \<and>
   create_request accept_all db_double_roster
     (post_by 10 (scrimmage_form ''1'' ''20'' (PStr ''True''))) 1 =
     (Inr (Response (Message ''Unknown Error'') HTTP_400_BAD_REQUEST), db_double_roster) \<and>
   create_request accept_all db_double_roster
     (post_by 20 (scrimmage_form ''1'' ''2'' (PStr ''True''))) 1 =
     (Inl InternalError, db_double_roster)"
  by (simp add: example_defs http_defs view_defs create_defs Let_def)

text \<open>
  Claim C9. Team 2 is a team of the league and is not deleted; no user has the id 2.
  User 10 of team 1 asks for a scrimmage of the red team 1 against the blue team 2:
  \<^verbatim>\<open>create\<close> looks for a team with the user 2, finds none and answers that the
  requested team does not exist.
\<close>

theorem create_looks_up_team_by_user_id:
  "team_B \<in> set (teams db_two_teams) \<and> team_pk team_B = 2 \<and> team_league team_B = 1 \<and>
   \<not> deleted team_B \<and>
   create_request accept_all db_two_teams
     (post_by 10 (scrimmage_form ''1'' ''2'' (PStr ''True''))) 1 =
     (Inr (Response (Message ''Requested team does not exist'') HTTP_404_NOT_FOUND),
      db_two_teams) \<and>
   get_team db_two_teams 1 2 = Inr None"
  by (simp add: example_defs http_defs view_defs create_defs Let_def)

text \<open>
  Claim C10. When \<^verbatim>\<open>create\<close> stores a scrimmage, the request has a field
  \<^verbatim>\<open>ranked\<close>, the scrimmage is ranked exactly when the field is the string
  \<^verbatim>\<open>True\<close>, and it is queued exactly when the team found for the other side accepts
  automatically: by its flag \<open>auto_accept_ranked\<close> when the field is that string, by its
  flag \<open>auto_accept_unranked\<close> for every other value.
\<close>

theorem ranked_only_for_literal_True:
  assumes "create ser d request league_id team = (Response (Data s) c, d')"
  shows "\<exists>v red_team_id blue_team_id that.
           map_of (data request) ''ranked'' = Some v \<and>
           int_field request ''red_team'' = Inr red_team_id \<and>
           int_field request ''blue_team'' = Inr blue_team_id \<and>
           get_team d league_id
             (if team_pk team = blue_team_id then red_team_id else blue_team_id) =
             Inr (Some that) \<and>
           ranked s = (v = PStr ''True'') \<and>
           (status s = ''queued'') =
             (if v = PStr ''True'' then auto_accept_ranked that else auto_accept_unranked that)"
proof -
  from assms have t: "create_try ser d request league_id team = Inr (Response (Data s) c, d')"
    by (simp add: create_def split: sum.splits)
  then obtain red_team_id blue_team_id map_id v where
    r: "int_field request ''red_team'' = Inr red_team_id" and
    b: "int_field request ''blue_team'' = Inr blue_team_id" and
    v: "getitem (data request) ''ranked'' = Inr v" and
    rest: "(if team_pk team = blue_team_id then
         try_bind (get_team d league_id red_team_id) (\<lambda>red_team'.
           create_validated ser d league_id red_team_id blue_team_id map_id (eq_True_str v)
             red_team' (Some team) (Some team) red_team')
       else if team_pk team = red_team_id then
         try_bind (get_team d league_id blue_team_id) (\<lambda>blue_team'.
           create_validated ser d league_id red_team_id blue_team_id map_id (eq_True_str v)
             (Some team) blue_team' (Some team) blue_team')
       else
         Inr (Response (Message ''Scrimmage does not include my team'') HTTP_400_BAD_REQUEST, d))
       = Inr (Response (Data s) c, d')"
    unfolding create_try_def try_bind_Inr Let_def by blast
  have "\<exists>that. get_team d league_id
             (if team_pk team = blue_team_id then red_team_id else blue_team_id) =
             Inr (Some that) \<and>
           ranked s = eq_True_str v \<and>
           (status s = ''queued'') =
             (if eq_True_str v then auto_accept_ranked that else auto_accept_unranked that)"
  proof (cases "team_pk team = blue_team_id")
    case True
    with rest obtain red_team' where
      g: "get_team d league_id red_team_id = Inr red_team'" and
      cv: "create_validated ser d league_id red_team_id blue_team_id map_id (eq_True_str v)
             red_team' (Some team) (Some team) red_team' = Inr (Response (Data s) c, d')"
      by (auto simp: try_bind_Inr)
    from create_validated_Data[OF cv] g True show ?thesis by auto
  next
    case False
    with rest have red: "team_pk team = red_team_id"
      by (auto split: if_splits)
    with rest False obtain blue_team' where
      g: "get_team d league_id blue_team_id = Inr blue_team'" and
      cv: "create_validated ser d league_id red_team_id blue_team_id map_id (eq_True_str v)
             (Some team) blue_team' (Some team) blue_team' = Inr (Response (Data s) c, d')"
      by (auto simp: try_bind_Inr)
    from create_validated_Data[OF cv] g False show ?thesis by auto
  qed
  with r b v show ?thesis
    unfolding eq_True_str_iff getitem_Inr by blast
qed

theorem ranked_only_for_literal_True_witness:
  "create accept_all db_aligned (post_by 1 (scrimmage_form ''1'' ''2'' (PStr ''true''))) 1 team_1 =
     (Response (Data scrim_created) HTTP_201_CREATED,
      db_aligned\<lparr>scrimmages := [scrim_created]\<rparr>) \<and>
   ranked scrim_created = False \<and> status scrim_created = ''pending'' \<and>
   auto_accept_ranked team_2 = True \<and> auto_accept_unranked team_2 = False \<and>
   (\<exists>v red_team_id blue_team_id that.
      map_of (data (post_by 1 (scrimmage_form ''1'' ''2'' (PStr ''true'')))) ''ranked'' = Some v \<and>
      int_field (post_by 1 (scrimmage_form ''1'' ''2'' (PStr ''true''))) ''red_team'' =
        Inr red_team_id \<and>
      int_field (post_by 1 (scrimmage_form ''1'' ''2'' (PStr ''true''))) ''blue_team'' =
        Inr blue_team_id \<and>
      get_team db_aligned 1
        (if team_pk team_1 = blue_team_id then red_team_id else blue_team_id) =
        Inr (Some that) \<and>
      ranked scrim_created = (v = PStr ''True'') \<and>
      (status scrim_created = ''queued'') =
        (if v = PStr ''True'' then auto_accept_ranked that else auto_accept_unranked that))"
proof -
  have c: "create accept_all db_aligned
             (post_by 1 (scrimmage_form ''1'' ''2'' (PStr ''true''))) 1 team_1 =
           (Response (Data scrim_created) HTTP_201_CREATED,
            db_aligned\<lparr>scrimmages := [scrim_created]\<rparr>)"
    by (simp add: example_defs scrim_created_def http_defs view_defs create_defs Let_def)
  have f: "ranked scrim_created = False" "status scrim_created = ''pending''"
    "auto_accept_ranked team_2 = True" "auto_accept_unranked team_2 = False"
    by (simp_all add: scrim_created_def team_2_def)
  from ranked_only_for_literal_True[OF c] c f show ?thesis
    by (intro conjI) assumption+
qed

text \<open>The boolean \<open>True\<close> is not the string; the string itself gives a ranked scrimmage.\<close>

lemma boolean_true_is_not_ranked:
  "create accept_all db_aligned (post_by 1 (scrimmage_form ''1'' ''2'' (PBool True))) 1 team_1 =
     (Response (Data scrim_created) HTTP_201_CREATED,
      db_aligned\<lparr>scrimmages := [scrim_created]\<rparr>)"
  by (simp add: example_defs scrim_created_def http_defs view_defs create_defs Let_def)

lemma literal_True_is_ranked:
  "create accept_all db_aligned (post_by 1 (scrimmage_form ''1'' ''2'' (PStr ''True''))) 1 team_1 =
     (Response
        (Data (scrim_created\<lparr>ranked := True, status := ''queued'',
                 red_submission := Some 101, blue_submission := Some 200\<rparr>))
        HTTP_201_CREATED,
      db_aligned\<lparr>scrimmages :=
        [scrim_created\<lparr>ranked := True, status := ''queued'',
           red_submission := Some 101, blue_submission := Some 200\<rparr>]\<rparr>)"
  by (simp add: example_defs scrim_created_def http_defs view_defs create_defs Let_def)

end
